theory Spec2Isabelle
  imports Main "HOL-Library.Word" "HOL-Library.Multiset"
begin

section \<open>The wallet's transaction history (src/wallet/api/transaction_history.cpp)\<close>

text \<open>
  The file holds the class \<open>TransactionHistoryImpl\<close>: a vector \<open>m_history\<close> of
  transaction records, four read operations (\<open>count\<close>, two overloads of
  \<open>transaction\<close>, \<open>getAll\<close>) and \<open>refresh\<close>, which deletes the records and builds
  them again from four queries of the wallet. The embedding is shallow: \<open>m_history\<close> is
  a list of records passed in and returned, a C++ exception is a value of type \<open>exn\<close>,
  and \<open>uint64_t\<close>, \<open>uint32_t\<close> and \<open>int\<close> are words of that width.
\<close>

subsection \<open>Machine integers and exceptions\<close>

type_synonym uint64_t = "64 word"
type_synonym uint32_t = "32 word"

text \<open>A C++ \<open>int\<close>: 32 bits, read as two's complement by \<open>sint\<close>.\<close>

type_synonym cpp_int = "32 word"

text \<open>
  The exceptions that can leave \<open>refresh\<close>: \<open>std::out_of_range\<close>, thrown by
  \<open>std::string::substr\<close> when the position is past the end, and whatever a call into
  the wallet throws (the wallet is not part of this file; \<open>wallet_exception\<close> carries
  its message).
\<close>

datatype exn = std_out_of_range | wallet_exception string

subsection \<open>The wallet's raw records\<close>

text \<open>
  The structs of \<open>wallet2\<close> are declared in wallet/wallet2.h, which is not among the
  sources; the records below have the fields that \<open>refresh\<close> reads, with the types
  that the assignments in \<open>refresh\<close> show. The type \<open>'h\<close> stands for
  \<open>crypto::hash\<close> and \<open>'n\<close> for the network type.
\<close>

text \<open>
  \<open>wallet::pay_type\<close>: \<open>refresh\<close> names three of its enumerators; every other one
  is \<open>other_pay_type\<close> of its number.
\<close>

datatype pay_type = service_node | miner | stake | other_pay_type nat

datatype reward_type = reward_unspecified | reward_miner | reward_service_node

datatype Direction = Direction_In | Direction_Out

text \<open>
  The state of an unconfirmed transfer: \<open>refresh\<close> only compares it with \<open>failed\<close>.
\<close>

datatype transfer_state = pending | failed

text \<open>
  The three structs and the class \<open>TransactionInfoImpl\<close> share field names, so
  the fields of the structs carry a prefix in front of the source's names: \<open>p_\<close>
  for \<open>payment_details\<close>, \<open>c_\<close> for \<open>confirmed_transfer_details\<close> and \<open>u_\<close> for
  \<open>unconfirmed_transfer_details\<close>. A \<open>std::set<uint32_t>\<close> is a set of words:
  \<open>size()\<close> is \<open>card\<close> and \<open>*begin()\<close> its least element.
\<close>

record subaddress_index =
  major :: uint32_t
  minor :: uint32_t

record 'h payment_details =
  p_m_tx_hash :: 'h
  p_m_amount :: uint64_t
  p_m_block_height :: uint64_t
  p_m_unlock_time :: uint64_t
  p_m_timestamp :: uint64_t
  p_m_type :: pay_type
  p_m_subaddr_index :: subaddress_index

record 'h pool_payment_details =
  m_pd :: "'h payment_details"

text \<open>
  A destination of a transfer. \<open>address\<close> is the method \<open>d.address(nettype, payment_id)\<close>,
  kept as a function field of the entry.
\<close>

record ('h, 'n) tx_destination_entry =
  amount :: uint64_t
  address :: "'n \<Rightarrow> 'h \<Rightarrow> string"

record ('h, 'n) confirmed_transfer_details =
  c_m_amount_in :: uint64_t
  c_m_amount_out :: uint64_t
  c_m_change :: uint64_t
  c_m_block_height :: uint64_t
  c_m_dests :: "('h, 'n) tx_destination_entry list"
  c_m_payment_id :: 'h
  c_m_timestamp :: uint64_t
  c_m_subaddr_account :: uint32_t
  c_m_subaddr_indices :: "uint32_t set"
  c_m_pay_type :: pay_type

record 'h unconfirmed_transfer_details =
  u_m_amount_in :: uint64_t
  u_m_amount_out :: uint64_t
  u_m_change :: uint64_t
  u_m_state :: transfer_state
  u_m_payment_id :: 'h
  u_m_timestamp :: uint64_t
  u_m_subaddr_account :: uint32_t
  u_m_subaddr_indices :: "uint32_t set"
  u_m_pay_type :: pay_type

text \<open>
  The wallet as \<open>refresh\<close> sees it (\<open>m_wallet\<close> and \<open>m_wallet->wallet()\<close> together):
  one field for each method called. The height and the four queries can throw, so
  they return a sum; an \<open>Inl\<close> is the exception thrown. The label of a subaddress, the
  network type and the address of a destination are read from data that the wallet
  holds; they are functions that return.
\<close>

record ('h, 'n) wallet =
  blockChainHeight :: "exn + uint64_t"
  get_payments :: "uint64_t \<Rightarrow> uint64_t \<Rightarrow> exn + ('h \<times> 'h payment_details) list"
  get_payments_out ::
    "uint64_t \<Rightarrow> uint64_t \<Rightarrow> exn + ('h \<times> ('h, 'n) confirmed_transfer_details) list"
  get_unconfirmed_payments_out :: "exn + ('h \<times> 'h unconfirmed_transfer_details) list"
  get_unconfirmed_payments :: "exn + ('h \<times> 'h pool_payment_details) list"
  get_subaddress_label :: "subaddress_index \<Rightarrow> string"
  nettype :: 'n

subsection \<open>The normalized record\<close>

record TransactionInfo =
  m_direction :: Direction
  m_pending :: bool
  m_failed :: bool
  m_amount :: uint64_t
  m_fee :: uint64_t
  m_blockheight :: uint64_t
  m_subaddrIndex :: "uint32_t set"
  m_subaddrAccount :: uint32_t
  m_label :: string
  m_hash :: string
  m_timestamp :: uint64_t
  m_paymentid :: string
  m_confirmations :: uint64_t
  m_unlock_time :: uint64_t
  m_transfers :: "(uint64_t \<times> string) list"
  m_reward_type :: reward_type
  m_is_stake :: bool

text \<open>
  Modelled from the spec: the constructor of \<open>TransactionInfoImpl\<close> is in
  transaction_info.cpp, which is not among the sources. The spec gives the defaults
  of a record: \<open>pending\<close>, \<open>failed\<close> and \<open>isStake\<close> false, \<open>fee\<close> zero (for the
  incoming records, which never assign it), \<open>blockHeight\<close> 0 when not mined, the label
  possibly empty, \<open>transfers\<close> empty, the reward type unspecified. Every field that a
  claim below speaks of is assigned by \<open>refresh\<close> itself; the direction, which the
  spec leaves open, is assigned in all four branches.
\<close>

definition TransactionInfoImpl_new :: TransactionInfo where
  "TransactionInfoImpl_new =
     \<lparr> m_direction = Direction_Out, m_pending = False, m_failed = False,
       m_amount = 0, m_fee = 0, m_blockheight = 0, m_subaddrIndex = {},
       m_subaddrAccount = 0, m_label = [], m_hash = [], m_timestamp = 0,
       m_paymentid = [], m_confirmations = 0, m_unlock_time = 0, m_transfers = [],
       m_reward_type = reward_unspecified, m_is_stake = False \<rparr>"

subsection \<open>The read operations\<close>

text \<open>
  \<open>int result = m_history.size()\<close>: the size is converted to \<open>int\<close>, which keeps its
  low 32 bits.
\<close>

definition count :: "TransactionInfo list \<Rightarrow> int" where
  "count m_history = sint (word_of_nat (length m_history) :: cpp_int)"


text \<open>\<open>std::find_if\<close>: the first element, from the front, that satisfies the predicate.\<close>

fun find_if :: "('a \<Rightarrow> bool) \<Rightarrow> 'a list \<Rightarrow> 'a option" where
  "find_if P [] = None"
| "find_if P (x # xs) = (if P x then Some x else find_if P xs)"

text \<open>\<open>transaction(std::string_view id)\<close>.\<close>

definition transaction_id :: "TransactionInfo list \<Rightarrow> string \<Rightarrow> TransactionInfo option" where
  "transaction_id m_history id' = find_if (\<lambda>ti. m_hash ti = id') m_history"

definition getAll :: "TransactionInfo list \<Rightarrow> TransactionInfo list" where
  "getAll m_history = m_history"

subsection \<open>The pieces of \<open>refresh\<close>\<close>

fun from_pay_type :: "pay_type \<Rightarrow> reward_type" where
  "from_pay_type service_node = reward_service_node"
| "from_pay_type miner = reward_miner"
| "from_pay_type _ = reward_unspecified"

text \<open>
  \<open>std::string::substr(pos)\<close> and \<open>substr(pos, n)\<close> throw \<open>std::out_of_range\<close> when
  \<open>pos > size()\<close>; \<open>find_first_not_of(c)\<close> returns the first index whose character is
  not \<open>c\<close>, and \<open>npos\<close> (here \<open>None\<close>) when there is none.
\<close>

definition substr_from :: "string \<Rightarrow> nat \<Rightarrow> exn + string" where
  "substr_from s pos = (if pos > length s then Inl std_out_of_range else Inr (drop pos s))"

definition substr :: "string \<Rightarrow> nat \<Rightarrow> nat \<Rightarrow> exn + string" where
  "substr s pos n =
     (if pos > length s then Inl std_out_of_range else Inr (take n (drop pos s)))"

fun find_first_not_of :: "string \<Rightarrow> char \<Rightarrow> nat option" where
  "find_first_not_of [] c = None"
| "find_first_not_of (x # xs) c =
     (if x \<noteq> c then Some 0 else map_option Suc (find_first_not_of xs c))"

text \<open>
  The payment id, as each of the four loops computes it from the hex string:
  \<^verbatim>\<open>if (payment_id.substr(16).find_first_not_of('0') == std::string::npos)
      payment_id = payment_id.substr(0, 16);\<close>
\<close>

definition normalize_payment_id :: "string \<Rightarrow> exn + string" where
  "normalize_payment_id payment_id =
     (case substr_from payment_id 16 of
        Inl e \<Rightarrow> Inl e
      | Inr tail \<Rightarrow>
          if find_first_not_of tail (CHR ''0'') = None then substr payment_id 0 16
          else Inr payment_id)"

text \<open>
  \<open>(wallet_height > pd.m_block_height) ? wallet_height - pd.m_block_height : 0\<close>, as
  the two confirmed loops compute it.
\<close>

definition confirmations_of :: "uint64_t \<Rightarrow> uint64_t \<Rightarrow> uint64_t" where
  "confirmations_of wallet_height block_height =
     (if wallet_height > block_height then wallet_height - block_height else 0)"

text \<open>
  The four loop bodies. \<open>type_to_hex\<close> (common/hex.h, not among the sources) is a
  parameter: the function that renders a hash as a string. Each body returns the
  record that it pushes, or the exception that leaves it.
\<close>

text \<open>Lines 128 to 147: a confirmed incoming payment.\<close>

definition payment_info ::
  "('h \<Rightarrow> string) \<Rightarrow> ('h, 'n) wallet \<Rightarrow> uint64_t \<Rightarrow> 'h \<times> 'h payment_details
     \<Rightarrow> exn + TransactionInfo" where
  "payment_info type_to_hex w wallet_height i =
     (let pd = snd i in
      case normalize_payment_id (type_to_hex (fst i)) of
        Inl e \<Rightarrow> Inl e
      | Inr payment_id \<Rightarrow> Inr (TransactionInfoImpl_new
          \<lparr> m_paymentid := payment_id,
            m_amount := p_m_amount pd,
            m_direction := Direction_In,
            m_hash := type_to_hex (p_m_tx_hash pd),
            m_blockheight := p_m_block_height pd,
            m_subaddrIndex := {minor (p_m_subaddr_index pd)},
            m_subaddrAccount := major (p_m_subaddr_index pd),
            m_label := get_subaddress_label w (p_m_subaddr_index pd),
            m_timestamp := p_m_timestamp pd,
            m_confirmations := confirmations_of wallet_height (p_m_block_height pd),
            m_unlock_time := p_m_unlock_time pd,
            m_reward_type := from_pay_type (p_m_type pd),
            m_is_stake := (p_m_type pd = stake) \<rparr>))"

text \<open>Lines 166 to 198: a confirmed outgoing transfer.\<close>

definition payment_out_info ::
  "('h \<Rightarrow> string) \<Rightarrow> ('h, 'n) wallet \<Rightarrow> uint64_t
     \<Rightarrow> 'h \<times> ('h, 'n) confirmed_transfer_details \<Rightarrow> exn + TransactionInfo" where
  "payment_out_info type_to_hex w wallet_height i =
     (let hash = fst i; pd = snd i;
          change = (if c_m_change pd = - 1 then 0 else c_m_change pd);
          fee = c_m_amount_in pd - c_m_amount_out pd
      in
      case normalize_payment_id (type_to_hex (c_m_payment_id pd)) of
        Inl e \<Rightarrow> Inl e
      | Inr payment_id \<Rightarrow> Inr (TransactionInfoImpl_new
          \<lparr> m_paymentid := payment_id,
            m_amount := c_m_amount_in pd - change - fee,
            m_fee := fee,
            m_direction := Direction_Out,
            m_hash := type_to_hex hash,
            m_blockheight := c_m_block_height pd,
            m_subaddrIndex := c_m_subaddr_indices pd,
            m_subaddrAccount := c_m_subaddr_account pd,
            m_label :=
              (if card (c_m_subaddr_indices pd) = 1
               then get_subaddress_label w
                      \<lparr> major = c_m_subaddr_account pd, minor = Min (c_m_subaddr_indices pd) \<rparr>
               else []),
            m_timestamp := c_m_timestamp pd,
            m_confirmations := confirmations_of wallet_height (c_m_block_height pd),
            m_is_stake := (c_m_pay_type pd = stake),
            m_transfers :=
              m_transfers TransactionInfoImpl_new
              @ map (\<lambda>d. (amount d, address d (nettype w) (c_m_payment_id pd)))
                  (c_m_dests pd) \<rparr>))"

text \<open>Lines 208 to 234: an unconfirmed outgoing transfer.\<close>

definition unconfirmed_payment_out_info ::
  "('h \<Rightarrow> string) \<Rightarrow> ('h, 'n) wallet \<Rightarrow> 'h \<times> 'h unconfirmed_transfer_details
     \<Rightarrow> exn + TransactionInfo" where
  "unconfirmed_payment_out_info type_to_hex w i =
     (let pd = snd i; hash = fst i;
          amount = u_m_amount_in pd;
          fee = amount - u_m_amount_out pd
      in
      case normalize_payment_id (type_to_hex (u_m_payment_id pd)) of
        Inl e \<Rightarrow> Inl e
      | Inr payment_id \<Rightarrow>
          let is_failed = (u_m_state pd = failed)
          in Inr (TransactionInfoImpl_new
          \<lparr> m_paymentid := payment_id,
            m_amount := amount - u_m_change pd - fee,
            m_fee := fee,
            m_direction := Direction_Out,
            m_failed := is_failed,
            m_pending := True,
            m_hash := type_to_hex hash,
            m_subaddrIndex := u_m_subaddr_indices pd,
            m_subaddrAccount := u_m_subaddr_account pd,
            m_label :=
              (if card (u_m_subaddr_indices pd) = 1
               then get_subaddress_label w
                      \<lparr> major = u_m_subaddr_account pd, minor = Min (u_m_subaddr_indices pd) \<rparr>
               else []),
            m_timestamp := u_m_timestamp pd,
            m_confirmations := 0,
            m_is_stake := (u_m_pay_type pd = stake) \<rparr>))"

text \<open>Lines 244 to 262: an unconfirmed incoming payment, from the transaction pool.\<close>

definition unconfirmed_payment_info ::
  "('h \<Rightarrow> string) \<Rightarrow> ('h, 'n) wallet \<Rightarrow> 'h \<times> 'h pool_payment_details
     \<Rightarrow> exn + TransactionInfo" where
  "unconfirmed_payment_info type_to_hex w i =
     (let pd = m_pd (snd i) in
      case normalize_payment_id (type_to_hex (fst i)) of
        Inl e \<Rightarrow> Inl e
      | Inr payment_id \<Rightarrow> Inr (TransactionInfoImpl_new
          \<lparr> m_paymentid := payment_id,
            m_amount := p_m_amount pd,
            m_direction := Direction_In,
            m_hash := type_to_hex (p_m_tx_hash pd),
            m_blockheight := p_m_block_height pd,
            m_pending := True,
            m_subaddrIndex := {minor (p_m_subaddr_index pd)},
            m_subaddrAccount := major (p_m_subaddr_index pd),
            m_label := get_subaddress_label w (p_m_subaddr_index pd),
            m_timestamp := p_m_timestamp pd,
            m_confirmations := 0,
            m_reward_type := from_pay_type (p_m_type pd),
            m_is_stake := (p_m_type pd = stake) \<rparr>))"

subsection \<open>\<open>refresh\<close>\<close>

text \<open>
  One \<open>for\<close> loop of \<open>refresh\<close>: each element is turned into a record and pushed at
  the back of \<open>m_history\<close>. An exception stops the loop and leaves the records pushed
  so far; the result is the exception, if any, and \<open>m_history\<close>.
\<close>

fun push_each ::
  "('a \<Rightarrow> exn + TransactionInfo) \<Rightarrow> 'a list \<Rightarrow> TransactionInfo list
     \<Rightarrow> exn option \<times> TransactionInfo list" where
  "push_each body [] m_history = (None, m_history)"
| "push_each body (i # rest) m_history =
     (case body i of
        Inl e \<Rightarrow> (Some e, m_history)
      | Inr ti \<Rightarrow> push_each body rest (m_history @ [ti]))"

definition min_height :: uint64_t where
  "min_height = 0"

definition max_height :: uint64_t where
  "max_height = - 1"

text \<open>
  \<open>refresh\<close> takes \<open>m_history\<close> and returns the exception that left it, if any, with
  \<open>m_history\<close> as it is then. The height is read first; then the records are deleted
  and the vector cleared; then come the four queries, each followed by its loop.
\<close>

definition refresh ::
  "('h \<Rightarrow> string) \<Rightarrow> ('h, 'n) wallet \<Rightarrow> TransactionInfo list
     \<Rightarrow> exn option \<times> TransactionInfo list" where
  "refresh type_to_hex w m_history =
     (case blockChainHeight w of
        Inl e \<Rightarrow> (Some e, m_history)
      | Inr wallet_height \<Rightarrow>
     (case get_payments w min_height max_height of
        Inl e \<Rightarrow> (Some e, [])
      | Inr in_payments \<Rightarrow>
     (case push_each (payment_info type_to_hex w wallet_height) in_payments [] of
        (Some e, h1) \<Rightarrow> (Some e, h1)
      | (None, h1) \<Rightarrow>
     (case get_payments_out w min_height max_height of
        Inl e \<Rightarrow> (Some e, h1)
      | Inr out_payments \<Rightarrow>
     (case push_each (payment_out_info type_to_hex w wallet_height) out_payments h1 of
        (Some e, h2) \<Rightarrow> (Some e, h2)
      | (None, h2) \<Rightarrow>
     (case get_unconfirmed_payments_out w of
        Inl e \<Rightarrow> (Some e, h2)
      | Inr upayments_out \<Rightarrow>
     (case push_each (unconfirmed_payment_out_info type_to_hex w) upayments_out h2 of
        (Some e, h3) \<Rightarrow> (Some e, h3)
      | (None, h3) \<Rightarrow>
     (case get_unconfirmed_payments w of
        Inl e \<Rightarrow> (Some e, h3)
      | Inr upayments \<Rightarrow>
          push_each (unconfirmed_payment_info type_to_hex w) upayments h3))))))))"

subsection \<open>The spec's payment id normalizer\<close>

text \<open>
  Section 4.1 of the spec, in its words: if every character at index 16 or more is
  the pad character \<open>'0'\<close>, the first 16 characters; otherwise the full string. The
  characters at index 16 or more are those left when the first 16 are dropped. This
  definition is not taken from the code; it is what \<open>normalize_payment_id\<close> is
  compared with.
\<close>

definition PaymentIdNormalizer :: "string \<Rightarrow> string" where
  "PaymentIdNormalizer s =
     (if list_all (\<lambda>c. c = CHR ''0'') (drop 16 s) then take 16 s else s)"

subsection \<open>A wallet to evaluate on\<close>

text \<open>
  In the examples a hash is the string that renders it, the network type is a number,
  and the wallet stands at height 100. \<open>example_wallet failing\<close> throws in the call
  numbered \<open>failing\<close> (0 is the height, 1 to 4 are the four queries in order) and in
  no call when \<open>failing\<close> is 5 or more. The payment in the pool has the hash of the
  second confirmed payment.
\<close>

definition example_hex :: "string \<Rightarrow> string" where
  "example_hex h = h"

definition pid_zero_tail :: string where
  "pid_zero_tail = ''a1b2c3d4e5f6a7b8000000000000000000000000000000000000000000000000''"

definition pid_full :: string where
  "pid_full = ''a1b2c3d4e5f6a7b80000000000000000000000000000000000000000000000c7''"

definition example_in :: "string \<Rightarrow> uint64_t \<Rightarrow> string payment_details" where
  "example_in tx block_height =
     \<lparr> p_m_tx_hash = tx, p_m_amount = 5000, p_m_block_height = block_height,
       p_m_unlock_time = 0, p_m_timestamp = 1700000000, p_m_type = miner,
       p_m_subaddr_index = \<lparr> major = 0, minor = 1 \<rparr> \<rparr>"

definition example_address :: "nat \<Rightarrow> string \<Rightarrow> string" where
  "example_address n payment_id = ''L6destination''"

definition example_out :: "(string, nat) confirmed_transfer_details" where
  "example_out =
     \<lparr> c_m_amount_in = 110, c_m_amount_out = 100, c_m_change = - 1,
       c_m_block_height = 40,
       c_m_dests = [\<lparr> amount = 100, address = example_address \<rparr>],
       c_m_payment_id = pid_full, c_m_timestamp = 1700000100,
       c_m_subaddr_account = 0, c_m_subaddr_indices = {0},
       c_m_pay_type = other_pay_type 2 \<rparr>"

definition example_pending ::
  "uint64_t \<Rightarrow> transfer_state \<Rightarrow> string unconfirmed_transfer_details" where
  "example_pending change state =
     \<lparr> u_m_amount_in = 110, u_m_amount_out = 100, u_m_change = change,
       u_m_state = state, u_m_payment_id = pid_zero_tail, u_m_timestamp = 1700000200,
       u_m_subaddr_account = 0, u_m_subaddr_indices = {0, 1},
       u_m_pay_type = stake \<rparr>"

definition example_label :: "subaddress_index \<Rightarrow> string" where
  "example_label i = (if minor i = 0 then ''primary'' else ''savings'')"

definition example_exn :: exn where
  "example_exn = wallet_exception ''daemon unreachable''"

definition example_wallet :: "nat \<Rightarrow> (string, nat) wallet" where
  "example_wallet failing =
     \<lparr> blockChainHeight = (if failing = 0 then Inl example_exn else Inr 100),
       get_payments = (\<lambda>lo hi. if failing = 1 then Inl example_exn
          else Inr [(pid_zero_tail, example_in ''tx_in_40'' 40),
                    (pid_full, example_in ''tx_in_150'' 150)]),
       get_payments_out = (\<lambda>lo hi. if failing = 2 then Inl example_exn
          else Inr [(''tx_out'', example_out)]),
       get_unconfirmed_payments_out = (if failing = 3 then Inl example_exn
          else Inr [(''tx_pending'', example_pending 4 failed)]),
       get_unconfirmed_payments = (if failing = 4 then Inl example_exn
          else Inr [(pid_full, \<lparr> m_pd = example_in ''tx_in_150'' 0 \<rparr>)]),
       get_subaddress_label = example_label,
       nettype = 0 \<rparr>"

text \<open>A snapshot from before the call: one record.\<close>

definition old_history :: "TransactionInfo list" where
  "old_history = [TransactionInfoImpl_new \<lparr> m_hash := ''tx_old'' \<rparr>]"

text \<open>The snapshot that a \<open>refresh\<close> of the wallet builds when no call throws.\<close>

definition example_snapshot :: "TransactionInfo list" where
  "example_snapshot = snd (refresh example_hex (example_wallet 5) old_history)"

text \<open>
  A wallet with \<open>2^31\<close> confirmed incoming payments (2147483648 copies of one
  payment) and nothing else: one more record than an \<open>int\<close> can count.
\<close>

definition huge_wallet :: "(string, nat) wallet" where
  "huge_wallet =
     \<lparr> blockChainHeight = Inr 100,
       get_payments = (\<lambda>lo hi. Inr (replicate 2147483648 (pid_zero_tail, example_in ''tx_in_40'' 40))),
       get_payments_out = (\<lambda>lo hi. Inr []),
       get_unconfirmed_payments_out = Inr [],
       get_unconfirmed_payments = Inr [],
       get_subaddress_label = example_label,
       nettype = 0 \<rparr>"

section \<open>Auxiliary facts\<close>

subsection \<open>Strings\<close>

lemma find_first_not_of_None_iff:
  "find_first_not_of s c = None \<longleftrightarrow> (\<forall>x\<in>set s. x = c)"
  by (induction s) auto

lemma drop_all_iff_index:
  assumes "n \<le> length s"
  shows "(\<forall>x\<in>set (drop n s). P x) \<longleftrightarrow> (\<forall>k. n \<le> k \<and> k < length s \<longrightarrow> P (s ! k))"
proof
  assume a: "\<forall>x\<in>set (drop n s). P x"
  show "\<forall>k. n \<le> k \<and> k < length s \<longrightarrow> P (s ! k)"
  proof (intro allI impI)
    fix k assume k: "n \<le> k \<and> k < length s"
    then have "drop n s ! (k - n) = s ! k" and "k - n < length (drop n s)"
      using assms by auto
    then show "P (s ! k)" using a by (metis nth_mem)
  qed
next
  assume a: "\<forall>k. n \<le> k \<and> k < length s \<longrightarrow> P (s ! k)"
  show "\<forall>x\<in>set (drop n s). P x"
  proof
    fix x assume "x \<in> set (drop n s)"
    then obtain j where j: "j < length (drop n s)" "drop n s ! j = x"
      by (auto simp: in_set_conv_nth)
    then have "s ! (n + j) = x" using assms by simp
    moreover have "n + j < length s" using j by simp
    ultimately show "P x" using a by auto
  qed
qed

lemma normalize_payment_id_long:
  "16 \<le> length s \<Longrightarrow> normalize_payment_id s = Inr (PaymentIdNormalizer s)"
  by (simp add: normalize_payment_id_def substr_from_def substr_def PaymentIdNormalizer_def
      find_first_not_of_None_iff list_all_iff)

lemma normalize_payment_id_short:
  "length s < 16 \<Longrightarrow> normalize_payment_id s = Inl std_out_of_range"
  by (simp add: normalize_payment_id_def substr_from_def)

subsection \<open>The loop\<close>

lemma push_each_None_iff:
  "push_each body xs h = (None, h') \<longleftrightarrow> (\<exists>tis. map body xs = map Inr tis \<and> h' = h @ tis)"
proof (induction xs arbitrary: h h')
  case Nil
  then show ?case by auto
next
  case (Cons x xs)
  show ?case
  proof (cases "body x")
    case (Inl e)
    then show ?thesis by (auto simp: map_eq_Cons_conv)
  next
    case (Inr ti)
    then show ?thesis
      using Cons.IH [of "h @ [ti]" h'] by (auto simp: map_eq_Cons_conv Cons_eq_map_conv)
  qed
qed

lemma push_each_all_Inr:
  "map body xs = map Inr tis \<Longrightarrow> push_each body xs h = (None, h @ tis)"
  using push_each_None_iff [of body xs h "h @ tis"] by blast

lemma push_each_set:
  "push_each body xs h = (r, h') \<Longrightarrow> ti \<in> set h' \<Longrightarrow>
     ti \<in> set h \<or> (\<exists>i\<in>set xs. body i = Inr ti)"
proof (induction xs arbitrary: h)
  case Nil
  then show ?case by simp
next
  case (Cons x xs)
  show ?case
  proof (cases "body x")
    case (Inl e)
    then show ?thesis using Cons.prems by simp
  next
    case (Inr t)
    then have "push_each body xs (h @ [t]) = (r, h')" using Cons.prems(1) by simp
    from Cons.IH [OF this Cons.prems(2)] show ?thesis using Inr by auto
  qed
qed

subsection \<open>Machine integers\<close>

lemma count_small: "length h < 2 ^ 31 \<Longrightarrow> count h = int (length h)"
  unfolding count_def by (simp add: signed_of_nat signed_take_bit_int_eq_self)


subsection \<open>Searching a list\<close>

lemma find_if_None_iff: "find_if P xs = None \<longleftrightarrow> (\<forall>x\<in>set xs. \<not> P x)"
  by (induction xs) auto

lemma find_if_first:
  "\<exists>x\<in>set xs. P x \<Longrightarrow>
     \<exists>k<length xs. find_if P xs = Some (xs ! k) \<and> P (xs ! k) \<and> (\<forall>j<k. \<not> P (xs ! j))"
proof (induction xs)
  case Nil
  then show ?case by simp
next
  case (Cons x xs)
  show ?case
  proof (cases "P x")
    case True
    then show ?thesis by (intro exI [of _ 0]) simp
  next
    case False
    then have "\<exists>y\<in>set xs. P y" using Cons.prems by auto
    from Cons.IH [OF this] obtain k where k: "k < length xs" "find_if P xs = Some (xs ! k)"
      "P (xs ! k)" "\<forall>j<k. \<not> P (xs ! j)" by blast
    have "\<forall>j<Suc k. \<not> P ((x # xs) ! j)"
    proof (intro allI impI)
      fix j assume "j < Suc k"
      then show "\<not> P ((x # xs) ! j)" using False k(4) by (cases j) auto
    qed
    then show ?thesis using k False by (intro exI [of _ "Suc k"]) simp
  qed
qed

lemma in_map: "y \<in> set (map f xs) \<Longrightarrow> \<exists>x\<in>set xs. f x = y"
  by auto

lemma not_in_map: "y \<notin> set (map f xs) \<Longrightarrow> \<forall>x\<in>set xs. f x \<noteq> y"
  by auto

subsection \<open>The example wallet\<close>

lemmas ex_defs = example_hex_def pid_zero_tail_def pid_full_def example_in_def example_address_def
  example_out_def example_pending_def example_label_def example_exn_def example_wallet_def old_history_def

lemmas op_defs = refresh_def payment_info_def payment_out_info_def unconfirmed_payment_out_info_def
  unconfirmed_payment_info_def normalize_payment_id_def substr_def substr_from_def confirmations_of_def
  min_height_def max_height_def

lemma example_refresh: "refresh example_hex (example_wallet 5) old_history =
  (None, [\<lparr>m_direction = Direction_In, m_pending = False, m_failed = False,
      m_amount = 5000, m_fee = 0, m_blockheight = 40, m_subaddrIndex = {1},
      m_subaddrAccount = 0, m_label = ''savings'', m_hash = ''tx_in_40'',
      m_timestamp = 1700000000, m_paymentid = ''a1b2c3d4e5f6a7b8'',
      m_confirmations = 60, m_unlock_time = 0, m_transfers = [],
      m_reward_type = reward_miner, m_is_stake = False\<rparr>,
   \<lparr>m_direction = Direction_In, m_pending = False, m_failed = False,
      m_amount = 5000, m_fee = 0, m_blockheight = 150, m_subaddrIndex = {1},
      m_subaddrAccount = 0, m_label = ''savings'', m_hash = ''tx_in_150'',
      m_timestamp = 1700000000, m_paymentid = pid_full,
      m_confirmations = 0, m_unlock_time = 0, m_transfers = [],
      m_reward_type = reward_miner, m_is_stake = False\<rparr>,
   \<lparr>m_direction = Direction_Out, m_pending = False, m_failed = False,
      m_amount = 100, m_fee = 10, m_blockheight = 40, m_subaddrIndex = {0},
      m_subaddrAccount = 0, m_label = ''primary'', m_hash = ''tx_out'',
      m_timestamp = 1700000100, m_paymentid = pid_full,
      m_confirmations = 60, m_unlock_time = 0,
      m_transfers = [(100, ''L6destination'')],
      m_reward_type = reward_unspecified, m_is_stake = False\<rparr>,
   \<lparr>m_direction = Direction_Out, m_pending = True, m_failed = True,
      m_amount = 96, m_fee = 10, m_blockheight = 0, m_subaddrIndex = {0, 1},
      m_subaddrAccount = 0, m_label = [], m_hash = ''tx_pending'',
      m_timestamp = 1700000200, m_paymentid = ''a1b2c3d4e5f6a7b8'',
      m_confirmations = 0, m_unlock_time = 0, m_transfers = [],
      m_reward_type = reward_unspecified, m_is_stake = True\<rparr>,
   \<lparr>m_direction = Direction_In, m_pending = True, m_failed = False,
      m_amount = 5000, m_fee = 0, m_blockheight = 0, m_subaddrIndex = {1},
      m_subaddrAccount = 0, m_label = ''savings'', m_hash = ''tx_in_150'',
      m_timestamp = 1700000000, m_paymentid = pid_full,
      m_confirmations = 0, m_unlock_time = 0, m_transfers = [],
      m_reward_type = reward_miner, m_is_stake = False\<rparr>])"
  by (simp add: ex_defs op_defs TransactionInfoImpl_new_def)


lemma example_snapshot_length: "length example_snapshot = 5"
  unfolding example_snapshot_def example_refresh by simp

lemma example_snapshot_hashes:
  "map m_hash example_snapshot = [''tx_in_40'', ''tx_in_150'', ''tx_out'', ''tx_pending'', ''tx_in_150'']"
  unfolding example_snapshot_def example_refresh by simp

lemma example_snapshot_hash_nth:
  "k < 5 \<Longrightarrow> m_hash (example_snapshot ! k) = map m_hash example_snapshot ! k"
  by (simp add: example_snapshot_length)

subsection \<open>\<open>refresh\<close> as a whole\<close>

lemma refresh_height_throws:
  "blockChainHeight w = Inl e \<Longrightarrow> refresh type_to_hex w h = (Some e, h)"
  by (simp add: refresh_def)

lemma refresh_ignores_history:
  "blockChainHeight w = Inr wallet_height \<Longrightarrow> refresh type_to_hex w h = refresh type_to_hex w h'"
  by (simp add: refresh_def)

lemma refresh_success:
  assumes "refresh type_to_hex w h = (None, H)"
  shows "\<exists>wallet_height in_payments out_payments upayments_out upayments t1 t2 t3 t4.
      blockChainHeight w = Inr wallet_height \<and>
      get_payments w min_height max_height = Inr in_payments \<and>
      get_payments_out w min_height max_height = Inr out_payments \<and>
      get_unconfirmed_payments_out w = Inr upayments_out \<and>
      get_unconfirmed_payments w = Inr upayments \<and>
      map (payment_info type_to_hex w wallet_height) in_payments = map Inr t1 \<and>
      map (payment_out_info type_to_hex w wallet_height) out_payments = map Inr t2 \<and>
      map (unconfirmed_payment_out_info type_to_hex w) upayments_out = map Inr t3 \<and>
      map (unconfirmed_payment_info type_to_hex w) upayments = map Inr t4 \<and>
      H = t1 @ t2 @ t3 @ t4"
proof -
  from assms obtain wallet_height where ht: "blockChainHeight w = Inr wallet_height"
    by (cases "blockChainHeight w") (auto simp: refresh_def)
  from assms ht obtain in_payments where q1: "get_payments w min_height max_height = Inr in_payments"
    by (cases "get_payments w min_height max_height") (auto simp: refresh_def)
  obtain r1 h1 where p1: "push_each (payment_info type_to_hex w wallet_height) in_payments [] = (r1, h1)"
    by (cases "push_each (payment_info type_to_hex w wallet_height) in_payments []")
  have r1: "r1 = None" using assms ht q1 p1 by (cases r1) (auto simp: refresh_def)
  from assms ht q1 p1 r1 obtain out_payments
    where q2: "get_payments_out w min_height max_height = Inr out_payments"
    by (cases "get_payments_out w min_height max_height") (auto simp: refresh_def)
  obtain r2 h2 where p2: "push_each (payment_out_info type_to_hex w wallet_height) out_payments h1 = (r2, h2)"
    by (cases "push_each (payment_out_info type_to_hex w wallet_height) out_payments h1")
  have r2: "r2 = None" using assms ht q1 p1 r1 q2 p2 by (cases r2) (auto simp: refresh_def)
  from assms ht q1 p1 r1 q2 p2 r2 obtain upayments_out
    where q3: "get_unconfirmed_payments_out w = Inr upayments_out"
    by (cases "get_unconfirmed_payments_out w") (auto simp: refresh_def)
  obtain r3 h3 where p3: "push_each (unconfirmed_payment_out_info type_to_hex w) upayments_out h2 = (r3, h3)"
    by (cases "push_each (unconfirmed_payment_out_info type_to_hex w) upayments_out h2")
  have r3: "r3 = None" using assms ht q1 p1 r1 q2 p2 r2 q3 p3 by (cases r3) (auto simp: refresh_def)
  from assms ht q1 p1 r1 q2 p2 r2 q3 p3 r3 obtain upayments
    where q4: "get_unconfirmed_payments w = Inr upayments"
    by (cases "get_unconfirmed_payments w") (auto simp: refresh_def)
  have p4: "push_each (unconfirmed_payment_info type_to_hex w) upayments h3 = (None, H)"
    using assms ht q1 p1 r1 q2 p2 r2 q3 p3 r3 q4 by (simp add: refresh_def)
  from p1 r1 obtain t1 where t1: "map (payment_info type_to_hex w wallet_height) in_payments = map Inr t1"
    "h1 = t1" by (auto simp: push_each_None_iff)
  from p2 r2 obtain t2 where t2: "map (payment_out_info type_to_hex w wallet_height) out_payments = map Inr t2"
    "h2 = h1 @ t2" by (auto simp: push_each_None_iff)
  from p3 r3 obtain t3 where t3: "map (unconfirmed_payment_out_info type_to_hex w) upayments_out = map Inr t3"
    "h3 = h2 @ t3" by (auto simp: push_each_None_iff)
  from p4 obtain t4 where t4: "map (unconfirmed_payment_info type_to_hex w) upayments = map Inr t4"
    "H = h3 @ t4" by (auto simp: push_each_None_iff)
  have "H = t1 @ t2 @ t3 @ t4" using t1 t2 t3 t4 by simp
  with ht q1 q2 q3 q4 t1(1) t2(1) t3(1) t4(1) show ?thesis by blast
qed


lemma refresh_refresh:
  "refresh type_to_hex w (snd (refresh type_to_hex w h)) = refresh type_to_hex w h"
proof (cases "blockChainHeight w")
  case (Inl e)
  then show ?thesis by (simp add: refresh_height_throws)
next
  case (Inr wallet_height)
  then show ?thesis by (rule refresh_ignores_history)
qed

lemma example_refresh_snapshot:
  "refresh example_hex (example_wallet 5) old_history = (None, example_snapshot)"
  unfolding example_snapshot_def example_refresh by simp

subsection \<open>Where the records of a snapshot come from\<close>

lemma push_each_set_snd:
  "ti \<in> set (snd (push_each body xs h)) \<Longrightarrow> ti \<in> set h \<or> (\<exists>i\<in>set xs. body i = Inr ti)"
  using push_each_set [of body xs h "fst (push_each body xs h)" "snd (push_each body xs h)" ti]
  by simp

lemma refresh_provenance:
  assumes "blockChainHeight w = Inr wallet_height"
    and "ti \<in> set (snd (refresh type_to_hex w h))"
  shows "(\<exists>in_payments. get_payments w min_height max_height = Inr in_payments \<and>
            (\<exists>i\<in>set in_payments. payment_info type_to_hex w wallet_height i = Inr ti))
       \<or> (\<exists>out_payments. get_payments_out w min_height max_height = Inr out_payments \<and>
            (\<exists>i\<in>set out_payments. payment_out_info type_to_hex w wallet_height i = Inr ti))
       \<or> (\<exists>upayments_out. get_unconfirmed_payments_out w = Inr upayments_out \<and>
            (\<exists>i\<in>set upayments_out. unconfirmed_payment_out_info type_to_hex w i = Inr ti))
       \<or> (\<exists>upayments. get_unconfirmed_payments w = Inr upayments \<and>
            (\<exists>i\<in>set upayments. unconfirmed_payment_info type_to_hex w i = Inr ti))"
  using assms
  by (auto simp: refresh_def split: sum.splits prod.splits option.splits dest!: push_each_set push_each_set_snd)


subsection \<open>The confirmations of the four loop bodies\<close>

lemma payment_info_confirmations:
  "payment_info type_to_hex w wallet_height i = Inr ti \<Longrightarrow>
     m_blockheight ti = p_m_block_height (snd i) \<and>
     m_confirmations ti = confirmations_of wallet_height (p_m_block_height (snd i))"
  by (auto simp: payment_info_def Let_def split: sum.splits)

lemma payment_out_info_confirmations:
  "payment_out_info type_to_hex w wallet_height i = Inr ti \<Longrightarrow>
     m_blockheight ti = c_m_block_height (snd i) \<and>
     m_confirmations ti = confirmations_of wallet_height (c_m_block_height (snd i))"
  by (auto simp: payment_out_info_def Let_def split: sum.splits)

lemma unconfirmed_payment_out_info_confirmations:
  "unconfirmed_payment_out_info type_to_hex w i = Inr ti \<Longrightarrow> m_confirmations ti = 0"
  by (auto simp: unconfirmed_payment_out_info_def Let_def split: sum.splits)

lemma unconfirmed_payment_info_confirmations:
  "unconfirmed_payment_info type_to_hex w i = Inr ti \<Longrightarrow> m_confirmations ti = 0"
  by (auto simp: unconfirmed_payment_info_def Let_def split: sum.splits)

lemma example_snapshot_branches:
  "payment_info example_hex (example_wallet 5) 100 (pid_zero_tail, example_in ''tx_in_40'' 40)
     = Inr (example_snapshot ! 0)"
  "payment_info example_hex (example_wallet 5) 100 (pid_full, example_in ''tx_in_150'' 150)
     = Inr (example_snapshot ! 1)"
  "payment_out_info example_hex (example_wallet 5) 100 (''tx_out'', example_out)
     = Inr (example_snapshot ! 2)"
  "unconfirmed_payment_out_info example_hex (example_wallet 5)
     (''tx_pending'', example_pending 4 failed) = Inr (example_snapshot ! 3)"
  "unconfirmed_payment_info example_hex (example_wallet 5)
     (pid_full, \<lparr> m_pd = example_in ''tx_in_150'' 0 \<rparr>) = Inr (example_snapshot ! 4)"
  unfolding example_snapshot_def example_refresh
  by (simp_all add: ex_defs op_defs TransactionInfoImpl_new_def)

lemma example_snapshot_mem:
  "example_snapshot ! 0 \<in> set (snd (refresh example_hex (example_wallet 5) old_history))"
  "example_snapshot ! 1 \<in> set (snd (refresh example_hex (example_wallet 5) old_history))"
  "example_snapshot ! 2 \<in> set (snd (refresh example_hex (example_wallet 5) old_history))"
  "example_snapshot ! 3 \<in> set (snd (refresh example_hex (example_wallet 5) old_history))"
  "example_snapshot ! 4 \<in> set (snd (refresh example_hex (example_wallet 5) old_history))"
  unfolding example_snapshot_def [symmetric] by (simp_all add: example_snapshot_length)

subsection \<open>The example wallet when a call throws\<close>

lemma example_wallet_queries:
  "blockChainHeight (example_wallet 0) = Inl example_exn"
  "0 < k \<Longrightarrow> blockChainHeight (example_wallet k) = Inr 100"
  "get_payments (example_wallet 1) min_height max_height = Inl example_exn"
  "k \<noteq> 1 \<Longrightarrow> get_payments (example_wallet k) min_height max_height =
     Inr [(pid_zero_tail, example_in ''tx_in_40'' 40), (pid_full, example_in ''tx_in_150'' 150)]"
  "get_payments_out (example_wallet 2) min_height max_height = Inl example_exn"
  "k \<noteq> 2 \<Longrightarrow> get_payments_out (example_wallet k) min_height max_height =
     Inr [(''tx_out'', example_out)]"
  "get_unconfirmed_payments_out (example_wallet 3) = Inl example_exn"
  "k \<noteq> 3 \<Longrightarrow> get_unconfirmed_payments_out (example_wallet k) =
     Inr [(''tx_pending'', example_pending 4 failed)]"
  "get_unconfirmed_payments (example_wallet 4) = Inl example_exn"
  by (simp_all add: example_wallet_def)

lemma example_wallet_bodies:
  "map (payment_info example_hex (example_wallet k) 100)
     [(pid_zero_tail, example_in ''tx_in_40'' 40), (pid_full, example_in ''tx_in_150'' 150)]
   = map Inr (take 2 example_snapshot)"
  "map (payment_out_info example_hex (example_wallet k) 100) [(''tx_out'', example_out)]
   = map Inr (take 1 (drop 2 example_snapshot))"
  "map (unconfirmed_payment_out_info example_hex (example_wallet k))
     [(''tx_pending'', example_pending 4 failed)]
   = map Inr (take 1 (drop 3 example_snapshot))"
  unfolding example_snapshot_def example_refresh
  by (simp_all add: ex_defs op_defs TransactionInfoImpl_new_def)

lemma example_snapshot_takes:
  "take 2 example_snapshot @ take 1 (drop 2 example_snapshot) = take 3 example_snapshot"
  "take 2 example_snapshot @ take 1 (drop 2 example_snapshot) @ take 1 (drop 3 example_snapshot)
     = take 4 example_snapshot"
  unfolding example_snapshot_def example_refresh by simp_all

subsection \<open>Subtraction of \<open>uint64_t\<close>\<close>







subsection \<open>The amounts of the two outgoing loop bodies\<close>







lemma unconfirmed_payment_out_info_fields:
  "unconfirmed_payment_out_info type_to_hex w i = Inr ti \<Longrightarrow>
     m_confirmations ti = 0 \<and> m_pending ti \<and> (m_failed ti \<longleftrightarrow> u_m_state (snd i) = failed)"
  by (auto simp: unconfirmed_payment_out_info_def Let_def split: sum.splits)

subsection \<open>A snapshot of \<open>2^31\<close> records\<close>

lemma push_each_replicate:
  "body x = Inr t \<Longrightarrow> push_each body (replicate n x) h = (None, h @ replicate n t)"
  by (rule push_each_all_Inr) (simp add: map_replicate)

lemma count_2_31: "count (replicate 2147483648 x) = - 2147483648"
  by (simp add: count_def)

lemma huge_wallet_refresh:
  "\<exists>t. refresh example_hex huge_wallet [] = (None, replicate 2147483648 t)"
proof -
  have q: "blockChainHeight huge_wallet = Inr 100"
    "get_payments huge_wallet min_height max_height
       = Inr (replicate 2147483648 (pid_zero_tail, example_in ''tx_in_40'' 40))"
    "get_payments_out huge_wallet min_height max_height = Inr []"
    "get_unconfirmed_payments_out huge_wallet = Inr []"
    "get_unconfirmed_payments huge_wallet = Inr []"
    by (simp_all add: huge_wallet_def)
  have "16 \<le> length (example_hex (fst (pid_zero_tail, example_in ''tx_in_40'' 40)))"
    by (simp add: example_hex_def pid_zero_tail_def)
  then obtain t where t: "payment_info example_hex huge_wallet 100
      (pid_zero_tail, example_in ''tx_in_40'' 40) = Inr t"
    by (auto simp: payment_info_def Let_def normalize_payment_id_long)
  have p: "push_each (payment_info example_hex huge_wallet 100)
      (replicate 2147483648 (pid_zero_tail, example_in ''tx_in_40'' 40)) [] = (None, replicate 2147483648 t)"
    using push_each_replicate [where body = "payment_info example_hex huge_wallet 100"
        and x = "(pid_zero_tail, example_in ''tx_in_40'' 40)" and t = t and n = 2147483648
        and h = "[]", OF t] by simp
  have "refresh example_hex huge_wallet [] = (None, replicate 2147483648 t)"
    unfolding refresh_def q sum.case p prod.case option.case push_each.simps ..
  then show ?thesis ..
qed

section \<open>The claims\<close>

subsection \<open>C1: an exception during \<open>refresh\<close>\<close>

text \<open>
  Claim C1 says that when a query of the wallet fails during \<open>refresh\<close>, the failure
  reaches the caller and the snapshot is as before the call: \<open>count()\<close> and
  \<open>getAll()\<close> return what they returned before. The code reads the height, deletes
  the records, and only then queries the wallet; it has no handler. On the example
  wallet whose third query throws, with one record before the call, the exception
  reaches the caller, and afterwards \<open>count()\<close> is 3, not 1, and \<open>getAll()\<close> is the
  records of the first two loops: the old record is gone and the snapshot is partial.
\<close>

theorem refresh_exception_counterexample:
  "fst (refresh example_hex (example_wallet 3) old_history) = Some example_exn
   \<and> count (snd (refresh example_hex (example_wallet 3) old_history)) = 3
   \<and> count old_history = 1
   \<and> getAll (snd (refresh example_hex (example_wallet 3) old_history)) \<noteq> getAll old_history
   \<and> map m_hash (getAll (snd (refresh example_hex (example_wallet 3) old_history)))
       = [''tx_in_40'', ''tx_in_150'', ''tx_out'']
   \<and> map m_hash (getAll old_history) = [''tx_old'']"
  by (simp add: ex_defs op_defs TransactionInfoImpl_new_def count_def getAll_def)


text \<open>
  Claim C1 as amended, for the five calls that the model lets throw:
  \<open>blockChainHeight()\<close> and the four queries. An exception thrown by one of them
  leaves \<open>refresh\<close> and reaches the caller. When \<open>blockChainHeight()\<close> throws, which
  comes before the records are deleted, the snapshot is as before the call. When one
  of the four queries throws, after the loops before it have run to their end, the old
  records are gone and \<open>m_history\<close> holds the records of those loops, in order: none
  when \<open>get_payments\<close> throws, the confirmed incoming records when
  \<open>get_payments_out\<close> throws, those and the confirmed outgoing records when
  \<open>get_unconfirmed_payments_out\<close> throws, and those and the pending outgoing records
  when \<open>get_unconfirmed_payments\<close> throws. The statement says nothing of an exception
  from another call (the label of a subaddress, the network type, the address of a
  destination), which the model takes to return.
\<close>

theorem refresh_exception:
  "(blockChainHeight w = Inl e \<longrightarrow>
      refresh type_to_hex w m_history = (Some e, m_history))
   \<and> (blockChainHeight w = Inr wallet_height \<and>
      get_payments w min_height max_height = Inl e \<longrightarrow>
      refresh type_to_hex w m_history = (Some e, []))
   \<and> (blockChainHeight w = Inr wallet_height \<and>
      get_payments w min_height max_height = Inr in_payments \<and>
      map (payment_info type_to_hex w wallet_height) in_payments = map Inr t1 \<and>
      get_payments_out w min_height max_height = Inl e \<longrightarrow>
      refresh type_to_hex w m_history = (Some e, t1))
   \<and> (blockChainHeight w = Inr wallet_height \<and>
      get_payments w min_height max_height = Inr in_payments \<and>
      map (payment_info type_to_hex w wallet_height) in_payments = map Inr t1 \<and>
      get_payments_out w min_height max_height = Inr out_payments \<and>
      map (payment_out_info type_to_hex w wallet_height) out_payments = map Inr t2 \<and>
      get_unconfirmed_payments_out w = Inl e \<longrightarrow>
      refresh type_to_hex w m_history = (Some e, t1 @ t2))
   \<and> (blockChainHeight w = Inr wallet_height \<and>
      get_payments w min_height max_height = Inr in_payments \<and>
      map (payment_info type_to_hex w wallet_height) in_payments = map Inr t1 \<and>
      get_payments_out w min_height max_height = Inr out_payments \<and>
      map (payment_out_info type_to_hex w wallet_height) out_payments = map Inr t2 \<and>
      get_unconfirmed_payments_out w = Inr upayments_out \<and>
      map (unconfirmed_payment_out_info type_to_hex w) upayments_out = map Inr t3 \<and>
      get_unconfirmed_payments w = Inl e \<longrightarrow>
      refresh type_to_hex w m_history = (Some e, t1 @ t2 @ t3))"
proof (intro conjI impI)
  assume "blockChainHeight w = Inl e"
  then show "refresh type_to_hex w m_history = (Some e, m_history)"
    by (rule refresh_height_throws)
next
  assume "blockChainHeight w = Inr wallet_height \<and>
      get_payments w min_height max_height = Inl e"
  then show "refresh type_to_hex w m_history = (Some e, [])"
    by (simp add: refresh_def)
next
  assume a: "blockChainHeight w = Inr wallet_height \<and>
      get_payments w min_height max_height = Inr in_payments \<and>
      map (payment_info type_to_hex w wallet_height) in_payments = map Inr t1 \<and>
      get_payments_out w min_height max_height = Inl e"
  then have "push_each (payment_info type_to_hex w wallet_height) in_payments [] = (None, t1)"
    using push_each_all_Inr [of "payment_info type_to_hex w wallet_height" in_payments t1 "[]"]
    by simp
  then show "refresh type_to_hex w m_history = (Some e, t1)"
    using a by (simp add: refresh_def)
next
  assume a: "blockChainHeight w = Inr wallet_height \<and>
      get_payments w min_height max_height = Inr in_payments \<and>
      map (payment_info type_to_hex w wallet_height) in_payments = map Inr t1 \<and>
      get_payments_out w min_height max_height = Inr out_payments \<and>
      map (payment_out_info type_to_hex w wallet_height) out_payments = map Inr t2 \<and>
      get_unconfirmed_payments_out w = Inl e"
  then have "push_each (payment_info type_to_hex w wallet_height) in_payments [] = (None, t1)"
    using push_each_all_Inr [of "payment_info type_to_hex w wallet_height" in_payments t1 "[]"]
    by simp
  moreover have "push_each (payment_out_info type_to_hex w wallet_height) out_payments t1
      = (None, t1 @ t2)"
    using a by (simp add: push_each_all_Inr)
  ultimately show "refresh type_to_hex w m_history = (Some e, t1 @ t2)"
    using a by (simp add: refresh_def)
next
  assume a: "blockChainHeight w = Inr wallet_height \<and>
      get_payments w min_height max_height = Inr in_payments \<and>
      map (payment_info type_to_hex w wallet_height) in_payments = map Inr t1 \<and>
      get_payments_out w min_height max_height = Inr out_payments \<and>
      map (payment_out_info type_to_hex w wallet_height) out_payments = map Inr t2 \<and>
      get_unconfirmed_payments_out w = Inr upayments_out \<and>
      map (unconfirmed_payment_out_info type_to_hex w) upayments_out = map Inr t3 \<and>
      get_unconfirmed_payments w = Inl e"
  then have "push_each (payment_info type_to_hex w wallet_height) in_payments [] = (None, t1)"
    using push_each_all_Inr [of "payment_info type_to_hex w wallet_height" in_payments t1 "[]"]
    by simp
  moreover have "push_each (payment_out_info type_to_hex w wallet_height) out_payments t1
      = (None, t1 @ t2)"
    using a by (simp add: push_each_all_Inr)
  moreover have "push_each (unconfirmed_payment_out_info type_to_hex w) upayments_out (t1 @ t2)
      = (None, t1 @ t2 @ t3)"
    using a push_each_all_Inr [of "unconfirmed_payment_out_info type_to_hex w" upayments_out t3
        "t1 @ t2"] by simp
  ultimately show "refresh type_to_hex w m_history = (Some e, t1 @ t2 @ t3)"
    using a by (simp add: refresh_def)
qed

text \<open>
  The five cases on the example wallet: the call numbered 0 to 4 throws, and the
  snapshot afterwards is the old one, the empty one, and the first 2, 3 and 4 records
  of the full snapshot.
\<close>

theorem refresh_exception_witness:
  "refresh example_hex (example_wallet 0) old_history = (Some example_exn, old_history)
   \<and> refresh example_hex (example_wallet 1) old_history = (Some example_exn, [])
   \<and> refresh example_hex (example_wallet 2) old_history
        = (Some example_exn, take 2 example_snapshot)
   \<and> refresh example_hex (example_wallet 3) old_history
        = (Some example_exn, take 3 example_snapshot)
   \<and> refresh example_hex (example_wallet 4) old_history
        = (Some example_exn, take 4 example_snapshot)"
proof -
  note q = example_wallet_queries
  note b = example_wallet_bodies
  have r0: "refresh example_hex (example_wallet 0) old_history = (Some example_exn, old_history)"
    using refresh_exception [where w = "example_wallet 0" and e = example_exn
        and type_to_hex = example_hex and m_history = old_history,
        THEN conjunct1, THEN mp, OF q(1)] .
  have r1: "refresh example_hex (example_wallet 1) old_history = (Some example_exn, [])"
    using refresh_exception [where w = "example_wallet 1" and e = example_exn
        and type_to_hex = example_hex and m_history = old_history and wallet_height = 100,
        THEN conjunct2, THEN conjunct1, THEN mp]
      q(2) [of 1] q(3) by simp
  have r2: "refresh example_hex (example_wallet 2) old_history
        = (Some example_exn, take 2 example_snapshot)"
    using refresh_exception [where w = "example_wallet 2" and e = example_exn
        and type_to_hex = example_hex and m_history = old_history and wallet_height = 100
        and in_payments = "[(pid_zero_tail, example_in ''tx_in_40'' 40),
                            (pid_full, example_in ''tx_in_150'' 150)]"
        and ?t1.0 = "take 2 example_snapshot",
        THEN conjunct2, THEN conjunct2, THEN conjunct1, THEN mp]
      q(2) [of 2] q(4) [of 2] b(1) [of 2] q(5) by simp
  have r3: "refresh example_hex (example_wallet 3) old_history
        = (Some example_exn, take 2 example_snapshot @ take 1 (drop 2 example_snapshot))"
    using refresh_exception [where w = "example_wallet 3" and e = example_exn
        and type_to_hex = example_hex and m_history = old_history and wallet_height = 100
        and in_payments = "[(pid_zero_tail, example_in ''tx_in_40'' 40),
                            (pid_full, example_in ''tx_in_150'' 150)]"
        and ?t1.0 = "take 2 example_snapshot"
        and out_payments = "[(''tx_out'', example_out)]"
        and ?t2.0 = "take 1 (drop 2 example_snapshot)",
        THEN conjunct2, THEN conjunct2, THEN conjunct2, THEN conjunct1, THEN mp]
      q(2) [of 3] q(4) [of 3] b(1) [of 3] q(6) [of 3] b(2) [of 3] q(7) by simp
  have r4: "refresh example_hex (example_wallet 4) old_history
        = (Some example_exn, take 2 example_snapshot @ take 1 (drop 2 example_snapshot)
             @ take 1 (drop 3 example_snapshot))"
    using refresh_exception [where w = "example_wallet 4" and e = example_exn
        and type_to_hex = example_hex and m_history = old_history and wallet_height = 100
        and in_payments = "[(pid_zero_tail, example_in ''tx_in_40'' 40),
                            (pid_full, example_in ''tx_in_150'' 150)]"
        and ?t1.0 = "take 2 example_snapshot"
        and out_payments = "[(''tx_out'', example_out)]"
        and ?t2.0 = "take 1 (drop 2 example_snapshot)"
        and upayments_out = "[(''tx_pending'', example_pending 4 failed)]"
        and ?t3.0 = "take 1 (drop 3 example_snapshot)",
        THEN conjunct2, THEN conjunct2, THEN conjunct2, THEN conjunct2, THEN mp]
      q(2) [of 4] q(4) [of 4] b(1) [of 4] q(6) [of 4] b(2) [of 4] q(8) [of 4] b(3) [of 4] q(9)
    by simp
  from r0 r1 r2 r3 [unfolded example_snapshot_takes] r4 [unfolded example_snapshot_takes]
  show ?thesis by (intro conjI)
qed

subsection \<open>C2: the amount of a pending outgoing transfer\<close>

text \<open>
  Claim C2 says that a pending outgoing record is derived as a confirmed one is, with
  \<open>change = (raw change == UNKNOWN) ? 0 : raw change\<close>. The confirmed loop does this
  (line 169, with the comment that the change may not be known); the pending loop
  subtracts \<open>pd.m_change\<close> as it is (line 219). The theorem evaluates both loop bodies
  at \<open>amount_in = 110\<close>, \<open>amount_out = 100\<close> and the change \<open>(uint64_t)-1\<close>: the fee is
  10 in both, the amount is 100 from the confirmed body and 101 from the pending one.
  What else the claim says of a pending record holds:
  \<open>unconfirmed_payment_out_info_amounts\<close> and \<open>unconfirmed_payment_out_info_fields\<close>.
\<close>

theorem unconfirmed_out_unknown_change:
  "u_m_change (example_pending (- 1) pending) = - 1
   \<and> map_sum id m_fee
        (unconfirmed_payment_out_info example_hex (example_wallet 5)
           (''tx_pending'', example_pending (- 1) pending)) = Inr 10
   \<and> map_sum id m_amount
        (unconfirmed_payment_out_info example_hex (example_wallet 5)
           (''tx_pending'', example_pending (- 1) pending)) = Inr 101
   \<and> c_m_change example_out = - 1
   \<and> map_sum id m_fee
        (payment_out_info example_hex (example_wallet 5) 100 (''tx_out'', example_out)) = Inr 10
   \<and> map_sum id m_amount
        (payment_out_info example_hex (example_wallet 5) 100 (''tx_out'', example_out)) = Inr 100"
  by (simp add: ex_defs op_defs TransactionInfoImpl_new_def)

subsection \<open>C3: the payment id\<close>

text \<open>
  Claim C3. For a raw payment id whose hex string \<open>s\<close> has at least 16 characters:
  if every character at index 16 or more is \<open>'0'\<close>, the normalized payment id is the
  first 16 characters of \<open>s\<close>, otherwise it is \<open>s\<close> unchanged; the normalization
  returns (it does not throw); and each of the four loop bodies of \<open>refresh\<close> stores
  this value in \<open>m_paymentid\<close>. The first conjunct says that the spec's normalizer is
  the one of the claim's words, the second that the code computes it, the last four
  are the four branches.
\<close>

theorem payment_id_normalization:
  assumes "16 \<le> length s"
  shows "PaymentIdNormalizer s =
           (if (\<forall>k. 16 \<le> k \<and> k < length s \<longrightarrow> s ! k = CHR ''0'') then take 16 s else s)
       \<and> normalize_payment_id s = Inr (PaymentIdNormalizer s)
       \<and> (type_to_hex (fst i_in) = s \<longrightarrow>
            map_sum id m_paymentid (payment_info type_to_hex w wallet_height i_in)
              = Inr (PaymentIdNormalizer s))
       \<and> (type_to_hex (c_m_payment_id (snd i_out)) = s \<longrightarrow>
            map_sum id m_paymentid (payment_out_info type_to_hex w wallet_height i_out)
              = Inr (PaymentIdNormalizer s))
       \<and> (type_to_hex (u_m_payment_id (snd u_out)) = s \<longrightarrow>
            map_sum id m_paymentid (unconfirmed_payment_out_info type_to_hex w u_out)
              = Inr (PaymentIdNormalizer s))
       \<and> (type_to_hex (fst u_in) = s \<longrightarrow>
            map_sum id m_paymentid (unconfirmed_payment_info type_to_hex w u_in)
              = Inr (PaymentIdNormalizer s))"
proof -
  have spec: "PaymentIdNormalizer s =
      (if (\<forall>k. 16 \<le> k \<and> k < length s \<longrightarrow> s ! k = CHR ''0'') then take 16 s else s)"
    unfolding PaymentIdNormalizer_def list_all_iff
    using drop_all_iff_index [OF assms, of "\<lambda>c. c = CHR ''0''"] by simp
  have n: "normalize_payment_id s = Inr (PaymentIdNormalizer s)"
    using assms by (rule normalize_payment_id_long)
  have b1: "type_to_hex (fst i_in) = s \<longrightarrow>
      map_sum id m_paymentid (payment_info type_to_hex w wallet_height i_in)
        = Inr (PaymentIdNormalizer s)"
    using n by (simp add: payment_info_def Let_def)
  have b2: "type_to_hex (c_m_payment_id (snd i_out)) = s \<longrightarrow>
      map_sum id m_paymentid (payment_out_info type_to_hex w wallet_height i_out)
        = Inr (PaymentIdNormalizer s)"
    using n by (simp add: payment_out_info_def Let_def)
  have b3: "type_to_hex (u_m_payment_id (snd u_out)) = s \<longrightarrow>
      map_sum id m_paymentid (unconfirmed_payment_out_info type_to_hex w u_out)
        = Inr (PaymentIdNormalizer s)"
    using n by (simp add: unconfirmed_payment_out_info_def Let_def)
  have b4: "type_to_hex (fst u_in) = s \<longrightarrow>
      map_sum id m_paymentid (unconfirmed_payment_info type_to_hex w u_in)
        = Inr (PaymentIdNormalizer s)"
    using n by (simp add: unconfirmed_payment_info_def Let_def)
  from spec n b1 b2 b3 b4 show ?thesis by blast
qed

text \<open>
  The theorem at the spec's example (a tail of zeros after 16 characters), at an id
  with a character other than \<open>'0'\<close> in its tail, and at the records of the example
  wallet.
\<close>

theorem payment_id_normalization_witness:
  "16 \<le> length ''a1b2c3d4e5f6a7b800000000000000000''
   \<and> normalize_payment_id ''a1b2c3d4e5f6a7b800000000000000000'' = Inr ''a1b2c3d4e5f6a7b8''
   \<and> normalize_payment_id pid_full = Inr pid_full
   \<and> map_sum id m_paymentid
        (payment_info example_hex (example_wallet 5) 100 (pid_zero_tail, example_in ''tx_in_40'' 40))
       = Inr ''a1b2c3d4e5f6a7b8''
   \<and> map_sum id m_paymentid
        (payment_out_info example_hex (example_wallet 5) 100 (''tx_out'', example_out))
       = Inr pid_full
   \<and> map_sum id m_paymentid
        (unconfirmed_payment_out_info example_hex (example_wallet 5)
           (''tx_pending'', example_pending 4 failed))
       = Inr ''a1b2c3d4e5f6a7b8''
   \<and> map_sum id m_paymentid
        (unconfirmed_payment_info example_hex (example_wallet 5)
           (pid_full, \<lparr> m_pd = example_in ''tx_in_150'' 0 \<rparr>))
       = Inr pid_full"
proof -
  have l1: "16 \<le> length ''a1b2c3d4e5f6a7b800000000000000000''" by simp
  have l2: "16 \<le> length pid_full" by (simp add: pid_full_def)
  have l3: "16 \<le> length pid_zero_tail" by (simp add: pid_zero_tail_def)
  have v1: "PaymentIdNormalizer ''a1b2c3d4e5f6a7b800000000000000000'' = ''a1b2c3d4e5f6a7b8''"
    by (simp add: PaymentIdNormalizer_def)
  have v2: "PaymentIdNormalizer pid_full = pid_full"
    by (simp add: PaymentIdNormalizer_def pid_full_def)
  have v3: "PaymentIdNormalizer pid_zero_tail = ''a1b2c3d4e5f6a7b8''"
    by (simp add: PaymentIdNormalizer_def pid_zero_tail_def)
  have h1: "example_hex (fst (pid_zero_tail, example_in ''tx_in_40'' 40)) = pid_zero_tail"
    by (simp add: example_hex_def)
  have h2: "example_hex (c_m_payment_id (snd (''tx_out'', example_out))) = pid_full"
    by (simp add: example_hex_def example_out_def)
  have h3: "example_hex (u_m_payment_id (snd (''tx_pending'', example_pending 4 failed)))
      = pid_zero_tail"
    by (simp add: example_hex_def example_pending_def)
  have h4: "example_hex (fst (pid_full, \<lparr> m_pd = example_in ''tx_in_150'' 0 \<rparr>)) = pid_full"
    by (simp add: example_hex_def)
  note a = payment_id_normalization [OF l1]
  note b = payment_id_normalization [OF l2, where type_to_hex = example_hex
      and i_out = "(''tx_out'', example_out)"
      and u_in = "(pid_full, \<lparr> m_pd = example_in ''tx_in_150'' 0 \<rparr>)"
      and w = "example_wallet 5" and wallet_height = 100]
  note c = payment_id_normalization [OF l3, where type_to_hex = example_hex
      and i_in = "(pid_zero_tail, example_in ''tx_in_40'' 40)"
      and u_out = "(''tx_pending'', example_pending 4 failed)"
      and w = "example_wallet 5" and wallet_height = 100]
  have c1: "normalize_payment_id ''a1b2c3d4e5f6a7b800000000000000000'' = Inr ''a1b2c3d4e5f6a7b8''"
    using a [THEN conjunct2, THEN conjunct1] unfolding v1 .
  have c2: "normalize_payment_id pid_full = Inr pid_full"
    using b [THEN conjunct2, THEN conjunct1] unfolding v2 .
  have b1: "map_sum id m_paymentid
        (payment_info example_hex (example_wallet 5) 100 (pid_zero_tail, example_in ''tx_in_40'' 40))
       = Inr ''a1b2c3d4e5f6a7b8''"
    using c [THEN conjunct2, THEN conjunct2, THEN conjunct1, THEN mp, OF h1] unfolding v3 .
  have b2: "map_sum id m_paymentid
        (payment_out_info example_hex (example_wallet 5) 100 (''tx_out'', example_out))
       = Inr pid_full"
    using b [THEN conjunct2, THEN conjunct2, THEN conjunct2, THEN conjunct1, THEN mp, OF h2]
    unfolding v2 .
  have b3: "map_sum id m_paymentid
        (unconfirmed_payment_out_info example_hex (example_wallet 5)
           (''tx_pending'', example_pending 4 failed))
       = Inr ''a1b2c3d4e5f6a7b8''"
    using c [THEN conjunct2, THEN conjunct2, THEN conjunct2, THEN conjunct2, THEN conjunct1,
        THEN mp, OF h3]
    unfolding v3 .
  have b4: "map_sum id m_paymentid
        (unconfirmed_payment_info example_hex (example_wallet 5)
           (pid_full, \<lparr> m_pd = example_in ''tx_in_150'' 0 \<rparr>))
       = Inr pid_full"
    using b [THEN conjunct2, THEN conjunct2, THEN conjunct2, THEN conjunct2, THEN conjunct2,
        THEN mp, OF h4]
    unfolding v2 .
  from l1 c1 c2 b1 b2 b3 b4 show ?thesis by (intro conjI)
qed

subsection \<open>C4: confirmations\<close>

text \<open>
  Claim C4. Every record that \<open>refresh\<close> leaves in \<open>m_history\<close>, at wallet height
  \<open>wallet_height\<close>, is the record that one of the four loop bodies made of a record
  that its query returned. When it comes from a confirmed branch (incoming or
  outgoing), its block height is the raw record's and its confirmations are
  \<open>wallet_height > blockHeight ? wallet_height - blockHeight : 0\<close>; when it comes
  from a pending branch (outgoing, or incoming from the pool), its confirmations are
  0. This holds also for the records that a \<open>refresh\<close> leaves behind when an exception
  ends it.
\<close>

theorem refresh_confirmations:
  assumes "blockChainHeight w = Inr wallet_height"
    and "ti \<in> set (snd (refresh type_to_hex w m_history))"
  shows "((\<exists>in_payments. get_payments w min_height max_height = Inr in_payments \<and>
            (\<exists>i\<in>set in_payments. payment_info type_to_hex w wallet_height i = Inr ti))
        \<or> (\<exists>out_payments. get_payments_out w min_height max_height = Inr out_payments \<and>
            (\<exists>i\<in>set out_payments. payment_out_info type_to_hex w wallet_height i = Inr ti))
        \<or> (\<exists>upayments_out. get_unconfirmed_payments_out w = Inr upayments_out \<and>
            (\<exists>i\<in>set upayments_out. unconfirmed_payment_out_info type_to_hex w i = Inr ti))
        \<or> (\<exists>upayments. get_unconfirmed_payments w = Inr upayments \<and>
            (\<exists>i\<in>set upayments. unconfirmed_payment_info type_to_hex w i = Inr ti)))
       \<and> (payment_info type_to_hex w wallet_height i_in = Inr ti \<longrightarrow>
            m_blockheight ti = p_m_block_height (snd i_in) \<and>
            m_confirmations ti =
              (if wallet_height > m_blockheight ti then wallet_height - m_blockheight ti else 0))
       \<and> (payment_out_info type_to_hex w wallet_height i_out = Inr ti \<longrightarrow>
            m_blockheight ti = c_m_block_height (snd i_out) \<and>
            m_confirmations ti =
              (if wallet_height > m_blockheight ti then wallet_height - m_blockheight ti else 0))
       \<and> (unconfirmed_payment_out_info type_to_hex w u_out = Inr ti \<longrightarrow> m_confirmations ti = 0)
       \<and> (unconfirmed_payment_info type_to_hex w u_in = Inr ti \<longrightarrow> m_confirmations ti = 0)"
proof (intro conjI impI)
  show "(\<exists>in_payments. get_payments w min_height max_height = Inr in_payments \<and>
            (\<exists>i\<in>set in_payments. payment_info type_to_hex w wallet_height i = Inr ti))
        \<or> (\<exists>out_payments. get_payments_out w min_height max_height = Inr out_payments \<and>
            (\<exists>i\<in>set out_payments. payment_out_info type_to_hex w wallet_height i = Inr ti))
        \<or> (\<exists>upayments_out. get_unconfirmed_payments_out w = Inr upayments_out \<and>
            (\<exists>i\<in>set upayments_out. unconfirmed_payment_out_info type_to_hex w i = Inr ti))
        \<or> (\<exists>upayments. get_unconfirmed_payments w = Inr upayments \<and>
            (\<exists>i\<in>set upayments. unconfirmed_payment_info type_to_hex w i = Inr ti))"
    using assms by (rule refresh_provenance)
next
  assume a: "payment_info type_to_hex w wallet_height i_in = Inr ti"
  from payment_info_confirmations [OF a]
  show "m_blockheight ti = p_m_block_height (snd i_in)" by simp
  from payment_info_confirmations [OF a]
  show "m_confirmations ti =
      (if wallet_height > m_blockheight ti then wallet_height - m_blockheight ti else 0)"
    by (simp add: confirmations_of_def)
next
  assume a: "payment_out_info type_to_hex w wallet_height i_out = Inr ti"
  from payment_out_info_confirmations [OF a]
  show "m_blockheight ti = c_m_block_height (snd i_out)" by simp
  from payment_out_info_confirmations [OF a]
  show "m_confirmations ti =
      (if wallet_height > m_blockheight ti then wallet_height - m_blockheight ti else 0)"
    by (simp add: confirmations_of_def)
next
  assume "unconfirmed_payment_out_info type_to_hex w u_out = Inr ti"
  then show "m_confirmations ti = 0" by (rule unconfirmed_payment_out_info_confirmations)
next
  assume "unconfirmed_payment_info type_to_hex w u_in = Inr ti"
  then show "m_confirmations ti = 0" by (rule unconfirmed_payment_info_confirmations)
qed


text \<open>
  The theorem on the five records of the example snapshot, at height 100: block 40
  gives 60 confirmations, block 150 gives 0, the pending records have 0.
\<close>

theorem refresh_confirmations_witness:
  "blockChainHeight (example_wallet 5) = Inr 100
   \<and> set example_snapshot = set (snd (refresh example_hex (example_wallet 5) old_history))
   \<and> m_blockheight (example_snapshot ! 0) = 40 \<and> m_confirmations (example_snapshot ! 0) = 60
   \<and> m_blockheight (example_snapshot ! 1) = 150 \<and> m_confirmations (example_snapshot ! 1) = 0
   \<and> m_blockheight (example_snapshot ! 2) = 40 \<and> m_confirmations (example_snapshot ! 2) = 60
   \<and> m_confirmations (example_snapshot ! 3) = 0
   \<and> m_confirmations (example_snapshot ! 4) = 0"
proof -
  have ht: "blockChainHeight (example_wallet 5) = Inr 100" by (simp add: example_wallet_def)
  have s: "set example_snapshot = set (snd (refresh example_hex (example_wallet 5) old_history))"
    by (simp add: example_snapshot_def)
  note b = example_snapshot_branches
  have r0: "m_blockheight (example_snapshot ! 0) = 40 \<and> m_confirmations (example_snapshot ! 0) = 60"
    using refresh_confirmations [OF ht example_snapshot_mem(1),
        THEN conjunct2, THEN conjunct1, THEN mp, OF b(1)]
    by (simp add: example_in_def)
  have r1: "m_blockheight (example_snapshot ! 1) = 150 \<and> m_confirmations (example_snapshot ! 1) = 0"
    using refresh_confirmations [OF ht example_snapshot_mem(2),
        THEN conjunct2, THEN conjunct1, THEN mp, OF b(2)]
    by (simp add: example_in_def)
  have r2: "m_blockheight (example_snapshot ! 2) = 40 \<and> m_confirmations (example_snapshot ! 2) = 60"
    using refresh_confirmations [OF ht example_snapshot_mem(3),
        THEN conjunct2, THEN conjunct2, THEN conjunct1, THEN mp, OF b(3)]
    by (simp add: example_out_def)
  have r3: "m_confirmations (example_snapshot ! 3) = 0"
    using refresh_confirmations [OF ht example_snapshot_mem(4),
        THEN conjunct2, THEN conjunct2, THEN conjunct2, THEN conjunct1, THEN mp, OF b(4)] .
  have r4: "m_confirmations (example_snapshot ! 4) = 0"
    using refresh_confirmations [OF ht example_snapshot_mem(5),
        THEN conjunct2, THEN conjunct2, THEN conjunct2, THEN conjunct2, THEN mp, OF b(5)] .
  from ht s r0 r1 r2 r3 r4 show ?thesis by simp
qed

subsection \<open>C5: the order of the snapshot\<close>

text \<open>
  Claim C5 says that after a successful rebuild of \<open>N\<close> records \<open>count()\<close> is \<open>N\<close>.
  \<open>count()\<close> returns the size converted to \<open>int\<close>. On the wallet with \<open>2^31\<close>
  confirmed incoming payments \<open>refresh\<close> returns without an exception, \<open>getAll()\<close>
  has 2147483648 records, and \<open>count()\<close> is -2147483648.
\<close>

theorem refresh_order_counterexample:
  "fst (refresh example_hex huge_wallet []) = None
   \<and> length (getAll (snd (refresh example_hex huge_wallet []))) = 2147483648
   \<and> count (snd (refresh example_hex huge_wallet [])) = - 2147483648"
proof -
  from huge_wallet_refresh obtain t
    where r: "refresh example_hex huge_wallet [] = (None, replicate 2147483648 t)" ..
  show ?thesis unfolding r by (simp add: getAll_def count_2_31)
qed

text \<open>
  Claim C5 as amended. After a \<open>refresh\<close> that no exception leaves, all four queries
  have returned, \<open>getAll()\<close> is the records of the confirmed incoming payments, then
  those of the confirmed outgoing transfers, then the unconfirmed outgoing transfers,
  then the unconfirmed incoming payments, each group in the order of its query's
  list; and when the snapshot has fewer than \<open>2^31\<close> records, \<open>count()\<close> is the total
  number \<open>N\<close> of the four lists.
\<close>

theorem refresh_order:
  assumes "refresh type_to_hex w m_history = (None, H)"
  shows "\<exists>wallet_height in_payments out_payments upayments_out upayments.
      blockChainHeight w = Inr wallet_height \<and>
      get_payments w min_height max_height = Inr in_payments \<and>
      get_payments_out w min_height max_height = Inr out_payments \<and>
      get_unconfirmed_payments_out w = Inr upayments_out \<and>
      get_unconfirmed_payments w = Inr upayments \<and>
      map Inr (getAll H) =
        map (payment_info type_to_hex w wallet_height) in_payments
        @ map (payment_out_info type_to_hex w wallet_height) out_payments
        @ map (unconfirmed_payment_out_info type_to_hex w) upayments_out
        @ map (unconfirmed_payment_info type_to_hex w) upayments \<and>
      (length H < 2 ^ 31 \<longrightarrow>
         count H = int (length in_payments + length out_payments
                        + length upayments_out + length upayments))"
proof -
  from refresh_success [OF assms] obtain wallet_height in_payments out_payments upayments_out
      upayments t1 t2 t3 t4 where
    q: "blockChainHeight w = Inr wallet_height"
      "get_payments w min_height max_height = Inr in_payments"
      "get_payments_out w min_height max_height = Inr out_payments"
      "get_unconfirmed_payments_out w = Inr upayments_out"
      "get_unconfirmed_payments w = Inr upayments" and
    t: "map (payment_info type_to_hex w wallet_height) in_payments = map Inr t1"
      "map (payment_out_info type_to_hex w wallet_height) out_payments = map Inr t2"
      "map (unconfirmed_payment_out_info type_to_hex w) upayments_out = map Inr t3"
      "map (unconfirmed_payment_info type_to_hex w) upayments = map Inr t4" and
    H: "H = t1 @ t2 @ t3 @ t4"
    by blast
  have m: "map Inr (getAll H) =
        map (payment_info type_to_hex w wallet_height) in_payments
        @ map (payment_out_info type_to_hex w wallet_height) out_payments
        @ map (unconfirmed_payment_out_info type_to_hex w) upayments_out
        @ map (unconfirmed_payment_info type_to_hex w) upayments"
    unfolding getAll_def H t by simp
  have "length t1 = length in_payments" "length t2 = length out_payments"
    "length t3 = length upayments_out" "length t4 = length upayments"
    using t by (metis length_map)+
  then have l: "length H = length in_payments + length out_payments
                        + length upayments_out + length upayments"
    unfolding H by simp
  have c: "length H < 2 ^ 31 \<longrightarrow>
         count H = int (length in_payments + length out_payments
                        + length upayments_out + length upayments)"
    using count_small [of H] l by simp
  from q m c show ?thesis by blast
qed


text \<open>The theorem on the example wallet: five records, in the order of the branches.\<close>

theorem refresh_order_witness:
  "refresh example_hex (example_wallet 5) old_history = (None, example_snapshot)
   \<and> map Inr (getAll example_snapshot) =
        map (payment_info example_hex (example_wallet 5) 100)
          [(pid_zero_tail, example_in ''tx_in_40'' 40), (pid_full, example_in ''tx_in_150'' 150)]
        @ map (payment_out_info example_hex (example_wallet 5) 100) [(''tx_out'', example_out)]
        @ map (unconfirmed_payment_out_info example_hex (example_wallet 5))
            [(''tx_pending'', example_pending 4 failed)]
        @ map (unconfirmed_payment_info example_hex (example_wallet 5))
            [(pid_full, \<lparr> m_pd = example_in ''tx_in_150'' 0 \<rparr>)]
   \<and> count example_snapshot = 5"
proof -
  note r = example_refresh_snapshot
  from refresh_order [OF r] obtain wallet_height in_payments out_payments upayments_out upayments
    where q: "blockChainHeight (example_wallet 5) = Inr wallet_height"
      "get_payments (example_wallet 5) min_height max_height = Inr in_payments"
      "get_payments_out (example_wallet 5) min_height max_height = Inr out_payments"
      "get_unconfirmed_payments_out (example_wallet 5) = Inr upayments_out"
      "get_unconfirmed_payments (example_wallet 5) = Inr upayments"
    and m: "map Inr (getAll example_snapshot) =
        map (payment_info example_hex (example_wallet 5) wallet_height) in_payments
        @ map (payment_out_info example_hex (example_wallet 5) wallet_height) out_payments
        @ map (unconfirmed_payment_out_info example_hex (example_wallet 5)) upayments_out
        @ map (unconfirmed_payment_info example_hex (example_wallet 5)) upayments"
    and c: "length example_snapshot < 2 ^ 31 \<longrightarrow>
         count example_snapshot = int (length in_payments + length out_payments
                        + length upayments_out + length upayments)"
    by blast
  have v: "wallet_height = 100"
    "in_payments = [(pid_zero_tail, example_in ''tx_in_40'' 40), (pid_full, example_in ''tx_in_150'' 150)]"
    "out_payments = [(''tx_out'', example_out)]"
    "upayments_out = [(''tx_pending'', example_pending 4 failed)]"
    "upayments = [(pid_full, \<lparr> m_pd = example_in ''tx_in_150'' 0 \<rparr>)]"
    using q by (simp_all add: example_wallet_def)
  have n: "count example_snapshot = 5"
    using c unfolding v by (simp add: example_snapshot_length)
  from r m [unfolded v] n show ?thesis by (intro conjI)
qed

subsection \<open>C6: lookup by index\<close>




subsection \<open>C7: lookup by hash\<close>

text \<open>
  Claim C7. When some record of \<open>m_history\<close> has the hash \<open>h\<close>,
  \<open>transaction(h)\<close> returns the first such record in the order of the vector (no
  record before it has that hash); when none has, it returns none. The result is an
  option: a miss is \<open>None\<close>, not an exception.
\<close>

theorem transaction_id_first:
  "((\<exists>ti\<in>set m_history. m_hash ti = h) \<longrightarrow>
      (\<exists>k<length m_history. transaction_id m_history h = Some (m_history ! k)
          \<and> m_hash (m_history ! k) = h \<and> (\<forall>j<k. m_hash (m_history ! j) \<noteq> h)))
   \<and> ((\<forall>ti\<in>set m_history. m_hash ti \<noteq> h) \<longrightarrow> transaction_id m_history h = None)"
proof (intro conjI impI)
  assume "\<exists>ti\<in>set m_history. m_hash ti = h"
  then show "\<exists>k<length m_history. transaction_id m_history h = Some (m_history ! k)
      \<and> m_hash (m_history ! k) = h \<and> (\<forall>j<k. m_hash (m_history ! j) \<noteq> h)"
    unfolding transaction_id_def by (rule find_if_first)
next
  assume "\<forall>ti\<in>set m_history. m_hash ti \<noteq> h"
  then show "transaction_id m_history h = None"
    unfolding transaction_id_def by (simp add: find_if_None_iff)
qed

text \<open>
  The theorem on the example snapshot, where the records 1 and 4 share a hash (the
  lookup returns record 1), and at a hash that no record has.
\<close>

theorem transaction_id_first_witness:
  "transaction_id example_snapshot ''tx_in_150'' = Some (example_snapshot ! 1)
   \<and> m_hash (example_snapshot ! 1) = ''tx_in_150''
   \<and> m_hash (example_snapshot ! 4) = ''tx_in_150''
   \<and> transaction_id example_snapshot ''tx_absent'' = None"
proof -
  have h0: "m_hash (example_snapshot ! 0) = ''tx_in_40''"
    using example_snapshot_hash_nth [of 0] by (simp add: example_snapshot_hashes)
  have h1: "m_hash (example_snapshot ! 1) = ''tx_in_150''"
    using example_snapshot_hash_nth [of 1] by (simp add: example_snapshot_hashes)
  have h4: "m_hash (example_snapshot ! 4) = ''tx_in_150''"
    using example_snapshot_hash_nth [of 4] by (simp add: example_snapshot_hashes)
  have "''tx_in_150'' \<in> set (map m_hash example_snapshot)"
    by (simp add: example_snapshot_hashes)
  then have ex: "\<exists>ti\<in>set example_snapshot. m_hash ti = ''tx_in_150''"
    by (rule in_map)
  from transaction_id_first [of example_snapshot "''tx_in_150''", THEN conjunct1, THEN mp, OF ex]
  obtain k where k: "transaction_id example_snapshot ''tx_in_150'' = Some (example_snapshot ! k)"
    "m_hash (example_snapshot ! k) = ''tx_in_150''"
    "\<forall>j<k. m_hash (example_snapshot ! j) \<noteq> ''tx_in_150''" by blast
  have "\<not> 1 < k" using k(3) h1 by blast
  moreover have "k \<noteq> 0"
  proof
    assume "k = 0"
    then have "''tx_in_40'' = ''tx_in_150''" using k(2) h0 by simp
    then show False by simp
  qed
  ultimately have "k = 1" by linarith
  then have a: "transaction_id example_snapshot ''tx_in_150'' = Some (example_snapshot ! 1)"
    using k(1) by simp
  have "''tx_absent'' \<notin> set (map m_hash example_snapshot)"
    by (simp add: example_snapshot_hashes)
  then have no: "\<forall>ti\<in>set example_snapshot. m_hash ti \<noteq> ''tx_absent''"
    by (rule not_in_map)
  have b: "transaction_id example_snapshot ''tx_absent'' = None"
    using transaction_id_first [of example_snapshot "''tx_absent''", THEN conjunct2, THEN mp, OF no] .
  from a h1 h4 b show ?thesis by (intro conjI)
qed

subsection \<open>C8: two calls in a row\<close>

text \<open>
  Claim C8. For every wallet, a second \<open>refresh\<close> right after a first, with the wallet
  unchanged (the same height and the same answers to the four queries), leaves a
  snapshot of the same length and with the same multiset of hashes as the first; the
  two snapshots hold equal records.
\<close>

theorem refresh_twice:
  "snd (refresh type_to_hex w (snd (refresh type_to_hex w m_history)))
     = snd (refresh type_to_hex w m_history)
   \<and> length (snd (refresh type_to_hex w (snd (refresh type_to_hex w m_history))))
     = length (snd (refresh type_to_hex w m_history))
   \<and> mset (map m_hash (snd (refresh type_to_hex w (snd (refresh type_to_hex w m_history)))))
     = mset (map m_hash (snd (refresh type_to_hex w m_history)))"
  by (simp add: refresh_refresh)

text \<open>The theorem on the example wallet.\<close>

theorem refresh_twice_witness:
  "snd (refresh example_hex (example_wallet 5) (snd (refresh example_hex (example_wallet 5) old_history)))
     = example_snapshot
   \<and> length example_snapshot = 5
   \<and> mset (map m_hash
        (snd (refresh example_hex (example_wallet 5)
           (snd (refresh example_hex (example_wallet 5) old_history)))))
     = mset [''tx_in_40'', ''tx_in_150'', ''tx_out'', ''tx_pending'', ''tx_in_150'']"
  using refresh_twice [of example_hex "example_wallet 5" old_history]
  unfolding example_snapshot_def [symmetric]
  by (simp add: example_snapshot_length example_snapshot_hashes)

subsection \<open>C9: the lock\<close>

text \<open>
  Claim C9 is about the mutex \<open>m_historyMutex\<close>: the four read operations take it
  shared and \<open>refresh\<close> takes it exclusive. The embedding has no threads: each
  operation is a function of \<open>m_history\<close>, evaluated from start to end, which is what
  one thread does while it holds the lock. Which threads can run at the same time is
  outside it, so the claim has no statement here.
\<close>

subsection \<open>C10: the amounts wrap around\<close>




end
